theory Spec2Isabelle
  imports Complex_Main
begin

section \<open>HT-Race: the per-frame physics step\<close>

text \<open>
  The repository holds three copies of \<^verbatim>\<open>main.js\<close>. Two of them (the first document of
  \<^verbatim>\<open>src/main.js\<close> and \<^verbatim>\<open>src/unnamed/part_000\<close>) drive a car over an open square field
  and have the same \<^verbatim>\<open>updatePhysics\<close>; the third (the second document of
  \<^verbatim>\<open>src/main.js\<close>, "Version 3.0") drives it round a circular track. The two variants
  differ in three constants, in the boundary policy and in the order of the last two
  sections of \<^verbatim>\<open>updatePhysics\<close>.

  JavaScript numbers are IEEE doubles. This development reads them as real numbers:
  every statement below is about the arithmetic the code writes down, without rounding,
  overflow or NaN.
\<close>

subsection \<open>The vector operations of three.js that the code calls\<close>

text \<open>
  Modelled from the spec: the classes \<^verbatim>\<open>THREE.Vector3\<close> and \<^verbatim>\<open>THREE.Vector2\<close> belong to the
  rendering library, which is not among the sources. The spec asks for "add, scale,
  length, normalize, axis-angle rotation" and for normalisation of a zero-length vector
  to return the zero vector. Each operation is written the way three.js computes it,
  and returns the vector that three.js leaves in the receiver.
\<close>

datatype vector3 = Vector3 (x3: real) (y3: real) (z3: real)

datatype vector2 = Vector2 (x2: real) (y2: real)

datatype quaternion = Quaternion real real real real

fun add3 :: "vector3 \<Rightarrow> vector3 \<Rightarrow> vector3" where
  "add3 (Vector3 a b c) (Vector3 d e f) = Vector3 (a + d) (b + e) (c + f)"

fun multiplyScalar3 :: "vector3 \<Rightarrow> real \<Rightarrow> vector3" where
  "multiplyScalar3 (Vector3 a b c) s = Vector3 (a * s) (b * s) (c * s)"

text \<open>\<^verbatim>\<open>divideScalar(s)\<close> is \<^verbatim>\<open>multiplyScalar(1 / s)\<close>.\<close>

definition divideScalar3 :: "vector3 \<Rightarrow> real \<Rightarrow> vector3" where
  "divideScalar3 u s = multiplyScalar3 u (1 / s)"

fun length3 :: "vector3 \<Rightarrow> real" where
  "length3 (Vector3 a b c) = sqrt (a * a + b * b + c * c)"

text \<open>
  Modelled from the spec: \<^verbatim>\<open>normalize()\<close>. In three.js it is
  \<^verbatim>\<open>divideScalar(this.length() || 1)\<close>: a vector of length zero is divided by one, and
  stays the zero vector, as the spec requires.
\<close>

definition normalize3 :: "vector3 \<Rightarrow> vector3" where
  "normalize3 u = divideScalar3 u (if length3 u = 0 then 1 else length3 u)"

text \<open>\<^verbatim>\<open>setLength(l)\<close> is \<^verbatim>\<open>normalize().multiplyScalar(l)\<close>.\<close>

definition setLength3 :: "vector3 \<Rightarrow> real \<Rightarrow> vector3" where
  "setLength3 u l = multiplyScalar3 (normalize3 u) l"

fun multiplyScalar2 :: "vector2 \<Rightarrow> real \<Rightarrow> vector2" where
  "multiplyScalar2 (Vector2 a b) s = Vector2 (a * s) (b * s)"

definition divideScalar2 :: "vector2 \<Rightarrow> real \<Rightarrow> vector2" where
  "divideScalar2 u s = multiplyScalar2 u (1 / s)"

fun length2 :: "vector2 \<Rightarrow> real" where
  "length2 (Vector2 a b) = sqrt (a * a + b * b)"

text \<open>Modelled from the spec: \<^verbatim>\<open>Vector2.normalize()\<close>, the same in two dimensions.\<close>

definition normalize2 :: "vector2 \<Rightarrow> vector2" where
  "normalize2 u = divideScalar2 u (if length2 u = 0 then 1 else length2 u)"

text \<open>
  \<^verbatim>\<open>applyAxisAngle(axis, angle)\<close> builds the quaternion of the half angle
  (\<^verbatim>\<open>setFromAxisAngle\<close>, which takes the axis as normalised) and conjugates the vector
  with it (\<^verbatim>\<open>applyQuaternion\<close>, written here as the product quaternion * vector *
  inverse quaternion).
\<close>

fun setFromAxisAngle :: "vector3 \<Rightarrow> real \<Rightarrow> quaternion" where
  "setFromAxisAngle (Vector3 a b c) angle =
     (let halfAngle = angle / 2; s = sin halfAngle
      in Quaternion (a * s) (b * s) (c * s) (cos halfAngle))"

fun applyQuaternion :: "vector3 \<Rightarrow> quaternion \<Rightarrow> vector3" where
  "applyQuaternion (Vector3 x y z) (Quaternion qx qy qz qw) =
     (let ix = qw * x + qy * z - qz * y;
          iy = qw * y + qz * x - qx * z;
          iz = qw * z + qx * y - qy * x;
          iw = - qx * x - qy * y - qz * z
      in Vector3 (ix * qw + iw * - qx + iy * - qz - iz * - qy)
                 (iy * qw + iw * - qy + iz * - qx - ix * - qz)
                 (iz * qw + iw * - qz + ix * - qy - iy * - qx))"

definition applyAxisAngle :: "vector3 \<Rightarrow> vector3 \<Rightarrow> real \<Rightarrow> vector3" where
  "applyAxisAngle u axis angle = applyQuaternion u (setFromAxisAngle axis angle)"

subsection \<open>Constants\<close>

datatype variant = OpenField | Circuit

definition MASS :: real where
  "MASS = 10"

definition ACCELERATION :: "variant \<Rightarrow> real" where
  "ACCELERATION v = (case v of OpenField \<Rightarrow> 20 | Circuit \<Rightarrow> 40)"

definition MAX_SPEED :: "variant \<Rightarrow> real" where
  "MAX_SPEED v = (case v of OpenField \<Rightarrow> 15 | Circuit \<Rightarrow> 35)"

definition DRAG :: "variant \<Rightarrow> real" where
  "DRAG v = (case v of OpenField \<Rightarrow> 985 / 1000 | Circuit \<Rightarrow> 98 / 100)"

definition ANGULAR_DRAG :: real where
  "ANGULAR_DRAG = 95 / 100"

definition TURN_RATE :: real where
  "TURN_RATE = 5 / 100"

definition TRACK_RADIUS :: real where
  "TRACK_RADIUS = 60"

definition TRACK_WIDTH :: real where
  "TRACK_WIDTH = 10"

definition boundary :: real where
  "boundary = 48"

subsection \<open>State\<close>

text \<open>The input latch \<^verbatim>\<open>keys\<close>.\<close>

record keys =
  forward :: bool
  backward :: bool
  left :: bool
  right :: bool

text \<open>
  The globals \<^verbatim>\<open>updatePhysics\<close> reads and writes: \<^verbatim>\<open>player.position\<close>,
  \<^verbatim>\<open>player.rotation.y\<close>, \<^verbatim>\<open>velocity\<close>, \<^verbatim>\<open>angularVelocity\<close>, \<^verbatim>\<open>camera.position\<close> and the
  point the camera was last aimed at by \<^verbatim>\<open>camera.lookAt\<close>; and the local \<^verbatim>\<open>force\<close>, which
  section 2 of the function builds and section 3 consumes.
\<close>

record game =
  position :: vector3
  rotation_y :: real
  velocity :: vector3
  angularVelocity :: real
  camera_position :: vector3
  camera_lookAt :: vector3
  force :: vector3

subsection \<open>The sections of \<^verbatim>\<open>updatePhysics\<close>\<close>

text \<open>Section 1, rotation. The two key tests are two separate \<^verbatim>\<open>if\<close> statements.\<close>

definition steerKeys :: "keys \<Rightarrow> real \<Rightarrow> real \<Rightarrow> real" where
  "steerKeys k deltaTime w =
     (let w1 = (if left k then w + TURN_RATE * deltaTime else w);
          w2 = (if right k then w1 - TURN_RATE * deltaTime else w1)
      in w2)"

definition steering :: "keys \<Rightarrow> real \<Rightarrow> game \<Rightarrow> game" where
  "steering k deltaTime g =
     (let w = steerKeys k deltaTime (angularVelocity g) * ANGULAR_DRAG
      in g\<lparr>angularVelocity := w, rotation_y := rotation_y g + w\<rparr>)"

text \<open>Section 2, the force of the throttle keys along the forward vector.\<close>

definition forwardVector :: "real \<Rightarrow> vector3" where
  "forwardVector heading = applyAxisAngle (Vector3 0 0 (- 1)) (Vector3 0 1 0) heading"

definition acceleration :: "variant \<Rightarrow> keys \<Rightarrow> game \<Rightarrow> game" where
  "acceleration v k g =
     (let f0 = Vector3 0 0 0;
          fw = forwardVector (rotation_y g);
          f1 = (if forward k then add3 f0 (multiplyScalar3 fw (ACCELERATION v)) else f0);
          f2 = (if backward k
                then add3 f1 (multiplyScalar3 fw (- ACCELERATION v * (5 / 10))) else f1)
      in g\<lparr>force := f2\<rparr>)"

text \<open>
  Section 3, the velocity: acceleration times the frame time is added, the drag factor
  is multiplied in, and the speed is clamped. \<^verbatim>\<open>divideScalar\<close> and \<^verbatim>\<open>multiplyScalar\<close>
  work in place, so \<^verbatim>\<open>force\<close> ends as the velocity increment.
\<close>

definition dragged :: "variant \<Rightarrow> real \<Rightarrow> vector3 \<Rightarrow> vector3 \<Rightarrow> vector3" where
  "dragged v deltaTime f u =
     multiplyScalar3 (add3 u (multiplyScalar3 (divideScalar3 f MASS) deltaTime)) (DRAG v)"

definition clampSpeed :: "variant \<Rightarrow> vector3 \<Rightarrow> vector3" where
  "clampSpeed v u = (if length3 u > MAX_SPEED v then setLength3 u (MAX_SPEED v) else u)"

definition updateVelocity :: "variant \<Rightarrow> real \<Rightarrow> game \<Rightarrow> game" where
  "updateVelocity v deltaTime g =
     g\<lparr>force := multiplyScalar3 (divideScalar3 (force g) MASS) deltaTime,
       velocity := clampSpeed v (dragged v deltaTime (force g) (velocity g))\<rparr>"

text \<open>Section 4, the position.\<close>

definition updatePosition :: "real \<Rightarrow> game \<Rightarrow> game" where
  "updatePosition deltaTime g =
     g\<lparr>position := add3 (position g) (multiplyScalar3 (velocity g) deltaTime)\<rparr>"

text \<open>The camera section.\<close>

definition cameraOffset :: "real \<Rightarrow> vector3" where
  "cameraOffset heading = applyAxisAngle (Vector3 0 5 10) (Vector3 0 1 0) heading"

definition cameraFollow :: "game \<Rightarrow> game" where
  "cameraFollow g =
     g\<lparr>camera_position := add3 (position g) (cameraOffset (rotation_y g)),
       camera_lookAt := position g\<rparr>"

text \<open>The boundary check of the open field: the velocity is damped, nothing else.\<close>

definition outOfField :: "vector3 \<Rightarrow> bool" where
  "outOfField p = (\<bar>x3 p\<bar> > boundary \<or> \<bar>z3 p\<bar> > boundary)"

definition fieldBoundary :: "game \<Rightarrow> game" where
  "fieldBoundary g =
     (if outOfField (position g)
      then g\<lparr>velocity := multiplyScalar3 (velocity g) (1 / 100)\<rparr> else g)"

text \<open>
  The boundary check of the circuit. \<^verbatim>\<open>position2D.normalize()\<close> normalises
  \<^verbatim>\<open>position2D\<close> in place each time it is called, and \<^verbatim>\<open>distanceToCenter\<close> is read once,
  before both tests.
\<close>

definition innerWall :: "real \<Rightarrow> game \<times> vector2 \<Rightarrow> game \<times> vector2" where
  "innerWall distanceToCenter gp =
     (let g = fst gp; position2D = snd gp
      in if distanceToCenter < TRACK_RADIUS
         then (let u = multiplyScalar3 (velocity g) (1 / 100);
                   n1 = normalize2 position2D;
                   px = x2 n1 * (TRACK_RADIUS + 1 / 10);
                   n2 = normalize2 n1;
                   pz = y2 n2 * (TRACK_RADIUS + 1 / 10)
               in (g\<lparr>velocity := u,
                     position := Vector3 px (y3 (position g)) pz\<rparr>, n2))
         else gp)"

definition outerWall :: "real \<Rightarrow> game \<times> vector2 \<Rightarrow> game \<times> vector2" where
  "outerWall distanceToCenter gp =
     (let g = fst gp; position2D = snd gp;
          maxRadius = TRACK_RADIUS + TRACK_WIDTH
      in if distanceToCenter > maxRadius
         then (let u = multiplyScalar3 (velocity g) (1 / 100);
                   n1 = normalize2 position2D;
                   px = x2 n1 * (maxRadius - 1 / 10);
                   n2 = normalize2 n1;
                   pz = y2 n2 * (maxRadius - 1 / 10)
               in (g\<lparr>velocity := u,
                     position := Vector3 px (y3 (position g)) pz\<rparr>, n2))
         else gp)"

definition position2D :: "vector3 \<Rightarrow> vector2" where
  "position2D p = Vector2 (x3 p) (z3 p)"

definition distanceToCenter :: "vector3 \<Rightarrow> real" where
  "distanceToCenter p = length2 (position2D p)"

definition trackBoundary :: "game \<Rightarrow> game" where
  "trackBoundary g =
     fst (outerWall (distanceToCenter (position g))
            (innerWall (distanceToCenter (position g)) (g, position2D (position g))))"

definition boundaryCheck :: "variant \<Rightarrow> game \<Rightarrow> game" where
  "boundaryCheck v g = (case v of OpenField \<Rightarrow> fieldBoundary g | Circuit \<Rightarrow> trackBoundary g)"

subsection \<open>\<^verbatim>\<open>updatePhysics\<close>: the sections in the order of the source\<close>

datatype section_name =
  Steering | Acceleration | UpdateVelocity | UpdatePosition | CameraFollow | BoundaryCheck

text \<open>
  The open field places the camera (section 5) and then checks the boundary; the
  circuit checks the boundary (section 5) and then places the camera (section 6).
\<close>

definition sections :: "variant \<Rightarrow> section_name list" where
  "sections v =
     (case v of
        OpenField \<Rightarrow>
          [Steering, Acceleration, UpdateVelocity, UpdatePosition, CameraFollow, BoundaryCheck]
      | Circuit \<Rightarrow>
          [Steering, Acceleration, UpdateVelocity, UpdatePosition, BoundaryCheck, CameraFollow])"

fun exec :: "variant \<Rightarrow> keys \<Rightarrow> real \<Rightarrow> section_name \<Rightarrow> game \<Rightarrow> game" where
  "exec v k deltaTime Steering g = steering k deltaTime g"
| "exec v k deltaTime Acceleration g = acceleration v k g"
| "exec v k deltaTime UpdateVelocity g = updateVelocity v deltaTime g"
| "exec v k deltaTime UpdatePosition g = updatePosition deltaTime g"
| "exec v k deltaTime CameraFollow g = cameraFollow g"
| "exec v k deltaTime BoundaryCheck g = boundaryCheck v g"

definition updatePhysics :: "variant \<Rightarrow> keys \<Rightarrow> real \<Rightarrow> game \<Rightarrow> game" where
  "updatePhysics v k deltaTime g = fold (exec v k deltaTime) (sections v) g"

text \<open>The state a frame has reached when its boundary check begins.\<close>

definition beforeBoundary :: "variant \<Rightarrow> keys \<Rightarrow> real \<Rightarrow> game \<Rightarrow> game" where
  "beforeBoundary v k deltaTime g =
     fold (exec v k deltaTime) (takeWhile (\<lambda>s. s \<noteq> BoundaryCheck) (sections v)) g"

text \<open>The state a frame has reached after section 4, the translation.\<close>

definition translated :: "variant \<Rightarrow> keys \<Rightarrow> real \<Rightarrow> game \<Rightarrow> game" where
  "translated v k deltaTime g =
     updatePosition deltaTime
       (updateVelocity v deltaTime (acceleration v k (steering k deltaTime g)))"

text \<open>The velocity of a frame after the drag factor, before the speed clamp looks at it.\<close>

definition preClamp :: "variant \<Rightarrow> keys \<Rightarrow> real \<Rightarrow> game \<Rightarrow> vector3" where
  "preClamp v k deltaTime g =
     dragged v deltaTime (force (acceleration v k (steering k deltaTime g))) (velocity g)"






text \<open>In a list of sections, the camera section comes somewhere after the boundary section.\<close>

definition camera_after_boundary :: "section_name list \<Rightarrow> bool" where
  "camera_after_boundary secs =
     (CameraFollow \<in> set (dropWhile (\<lambda>s. s \<noteq> BoundaryCheck) secs))"

text \<open>Inputs for worked examples: key states, and a body with the camera where \<^verbatim>\<open>init\<close> of
  \<^verbatim>\<open>src/unnamed/part_000\<close> puts it.\<close>

definition idle :: keys where
  "idle = \<lparr>forward = False, backward = False, left = False, right = False\<rparr>"

definition throttle :: keys where
  "throttle = \<lparr>forward = True, backward = False, left = False, right = False\<rparr>"

definition body :: "vector3 \<Rightarrow> real \<Rightarrow> vector3 \<Rightarrow> real \<Rightarrow> game" where
  "body p heading u w =
     \<lparr>position = p, rotation_y = heading, velocity = u, angularVelocity = w,
      camera_position = Vector3 0 5 10, camera_lookAt = Vector3 0 0 0,
      force = Vector3 0 0 0\<rparr>"







section \<open>Properties\<close>

subsection \<open>Unfolding one step\<close>

lemma updatePhysics_open:
  "updatePhysics OpenField k dt g =
     fieldBoundary (cameraFollow (translated OpenField k dt g))"
  by (simp add: updatePhysics_def sections_def translated_def boundaryCheck_def)

lemma updatePhysics_circuit:
  "updatePhysics Circuit k dt g =
     cameraFollow (trackBoundary (translated Circuit k dt g))"
  by (simp add: updatePhysics_def sections_def translated_def boundaryCheck_def)

subsection \<open>Rotation about the vertical axis, lengths\<close>

lemma applyAxisAngle_y:
  "applyAxisAngle (Vector3 x y z) (Vector3 0 1 0) h =
     Vector3 (x * cos h + z * sin h) y (z * cos h - x * sin h)"
proof -
  define c where "c = cos (h / 2)"
  define s where "s = sin (h / 2)"
  have cs: "c * c + s * s = 1"
    unfolding c_def s_def using sin_cos_squared_add2 [of "h / 2"] by (simp add: power2_eq_square)
  have ch: "cos h = c * c - s * s"
    unfolding c_def s_def using cos_double [of "h / 2"] by (simp add: power2_eq_square)
  have sh: "sin h = 2 * s * c"
    unfolding c_def s_def using sin_double [of "h / 2"] by simp
  have y: "c * y * c + s * y * s = y"
  proof -
    have "c * y * c + s * y * s = y * (c * c + s * s)" by (simp add: algebra_simps)
    then show ?thesis by (simp add: cs)
  qed
  show ?thesis
    unfolding applyAxisAngle_def
    apply (simp add: Let_def c_def [symmetric] s_def [symmetric] ch sh)
    using y by (simp add: algebra_simps)
qed

lemma forwardVector_eq: "forwardVector h = Vector3 (- sin h) 0 (- cos h)"
  by (simp add: forwardVector_def applyAxisAngle_y)

lemma cameraOffset_eq: "cameraOffset h = Vector3 (10 * sin h) 5 (10 * cos h)"
  by (simp add: cameraOffset_def applyAxisAngle_y)


lemma length3_multiplyScalar3: "length3 (multiplyScalar3 u s) = \<bar>s\<bar> * length3 u"
proof (cases u)
  case (Vector3 a b c)
  have "a * s * (a * s) + b * s * (b * s) + c * s * (c * s) = s\<^sup>2 * (a * a + b * b + c * c)"
    by (simp add: algebra_simps power2_eq_square)
  then show ?thesis
    using Vector3 by (simp add: real_sqrt_mult)
qed


subsection \<open>Speed clamp\<close>


lemma velocity_translated:
  "velocity (translated v k dt g) = clampSpeed v (preClamp v k dt g)"
  by (simp add: translated_def updatePosition_def updateVelocity_def preClamp_def
      acceleration_def steering_def Let_def)




lemma velocity_fieldBoundary:
  "velocity (fieldBoundary g) =
     (if outOfField (position g) then multiplyScalar3 (velocity g) (1 / 100) else velocity g)"
  by (simp add: fieldBoundary_def)

lemma velocity_trackBoundary:
  "velocity (trackBoundary g) = velocity g \<or>
   velocity (trackBoundary g) = multiplyScalar3 (velocity g) (1 / 100)"
  by (simp add: trackBoundary_def innerWall_def outerWall_def Let_def TRACK_RADIUS_def
      TRACK_WIDTH_def)

lemma velocity_updatePhysics_cases:
  "velocity (updatePhysics v k dt g) = velocity (translated v k dt g) \<or>
   velocity (updatePhysics v k dt g) = multiplyScalar3 (velocity (translated v k dt g)) (1 / 100)"
proof (cases v)
  case OpenField
  then show ?thesis
    by (simp add: updatePhysics_open velocity_fieldBoundary cameraFollow_def)
next
  case Circuit
  then show ?thesis
    using velocity_trackBoundary [of "translated Circuit k dt g"]
    by (simp add: updatePhysics_circuit cameraFollow_def)
qed



lemma length3_axis_z: "length3 (Vector3 0 0 c) = \<bar>c\<bar>"
  by simp


subsection \<open>Open field: the boundary check\<close>

lemma position_fieldBoundary: "position (fieldBoundary g) = position g"
  by (simp add: fieldBoundary_def)

text \<open>
  Claim C2. In the open field the position after a frame is the position after the
  translation: the boundary check never moves the body. When that position has
  \<open>\<bar>x\<bar>\<close> or \<open>\<bar>z\<bar>\<close> above 48, the frame leaves the velocity it had before the boundary
  check multiplied by 0.01, so its length is 1% of what it was.
\<close>

theorem C2_open_field_boundary_damps_velocity_only:
  "position (updatePhysics OpenField k dt g) = position (translated OpenField k dt g) \<and>
   position (beforeBoundary OpenField k dt g) = position (translated OpenField k dt g) \<and>
   velocity (beforeBoundary OpenField k dt g) = velocity (translated OpenField k dt g) \<and>
   (outOfField (position (translated OpenField k dt g)) \<longrightarrow>
      velocity (updatePhysics OpenField k dt g) =
        multiplyScalar3 (velocity (beforeBoundary OpenField k dt g)) (1 / 100) \<and>
      length3 (velocity (updatePhysics OpenField k dt g)) =
        length3 (velocity (beforeBoundary OpenField k dt g)) / 100)"
proof -
  have bb: "beforeBoundary OpenField k dt g = cameraFollow (translated OpenField k dt g)"
    by (simp add: beforeBoundary_def sections_def translated_def)
  show ?thesis
    by (simp add: bb updatePhysics_open position_fieldBoundary velocity_fieldBoundary
        cameraFollow_def length3_multiplyScalar3)
qed

theorem C2_witness:
  "outOfField (position (translated OpenField idle 1
       (body (Vector3 49 (1 / 2) 0) 0 (Vector3 0 0 (- 2)) 0))) \<and>
   velocity (updatePhysics OpenField idle 1
       (body (Vector3 49 (1 / 2) 0) 0 (Vector3 0 0 (- 2)) 0)) = Vector3 0 0 (- (197 / 10000)) \<and>
   position (updatePhysics OpenField idle 1
       (body (Vector3 49 (1 / 2) 0) 0 (Vector3 0 0 (- 2)) 0)) = Vector3 49 (1 / 2) (- (197 / 100))"
proof -
  let ?g = "body (Vector3 49 (1 / 2) 0) 0 (Vector3 0 0 (- 2)) 0"
  have pre: "preClamp OpenField idle 1 ?g = Vector3 0 0 (- (197 / 100))"
    by (simp add: preClamp_def dragged_def acceleration_def steering_def steerKeys_def
        divideScalar3_def DRAG_def MASS_def idle_def body_def)
  have vel: "velocity (translated OpenField idle 1 ?g) = Vector3 0 0 (- (197 / 100))"
    unfolding velocity_translated pre clampSpeed_def length3_axis_z
    by (simp add: MAX_SPEED_def)
  have pos: "position (translated OpenField idle 1 ?g) = Vector3 49 (1 / 2) (- (197 / 100))"
    using vel
    by (simp add: translated_def updatePosition_def updateVelocity_def acceleration_def
        steering_def Let_def body_def)
  show ?thesis
    using C2_open_field_boundary_damps_velocity_only [of idle 1 ?g]
    unfolding pos vel by (simp add: outOfField_def boundary_def)
qed

subsection \<open>Circuit: the two walls\<close>

lemma length2_nonneg: "0 \<le> length2 u"
  by (cases u) simp

lemma length2_multiplyScalar2: "length2 (multiplyScalar2 u s) = \<bar>s\<bar> * length2 u"
proof (cases u)
  case (Vector2 a b)
  have "a * s * (a * s) + b * s * (b * s) = s\<^sup>2 * (a * a + b * b)"
    by (simp add: algebra_simps power2_eq_square)
  then show ?thesis
    using Vector2 by (simp add: real_sqrt_mult)
qed

lemma normalize2_scale:
  assumes "length2 u \<noteq> 0"
  shows "normalize2 u = multiplyScalar2 u (1 / length2 u)"
  using assms by (simp add: normalize2_def divideScalar2_def)

lemma length2_normalize2:
  assumes "length2 u \<noteq> 0"
  shows "length2 (normalize2 u) = 1"
  using assms length2_nonneg [of u]
  by (simp add: normalize2_scale length2_multiplyScalar2)

lemma multiplyScalar2_one: "multiplyScalar2 u 1 = u"
  by (cases u) simp

lemma normalize2_idem:
  assumes "length2 u \<noteq> 0"
  shows "normalize2 (normalize2 u) = normalize2 u"
proof -
  have "normalize2 (normalize2 u) = divideScalar2 (normalize2 u) 1"
    using length2_normalize2 [OF assms] by (simp add: normalize2_def [of "normalize2 u"])
  then show ?thesis
    by (simp add: divideScalar2_def multiplyScalar2_one)
qed

lemma normalize2_zero: "normalize2 (Vector2 0 0) = Vector2 0 0"
  by (simp add: normalize2_def divideScalar2_def)

lemma length2_zero_iff: "length2 u = 0 \<longleftrightarrow> u = Vector2 0 0"
proof (cases u)
  case (Vector2 a b)
  have "a * a + b * b = 0 \<longleftrightarrow> a = 0 \<and> b = 0"
    using sum_squares_eq_zero_iff [of a b] by simp
  then show ?thesis
    using Vector2 by simp
qed

text \<open>The snap of a wall: the horizontal position is rescaled to the radius \<open>r\<close>.\<close>

lemma snap_components:
  assumes "length2 u \<noteq> 0"
  shows "Vector2 (x2 (normalize2 u) * r) (y2 (normalize2 (normalize2 u)) * r) =
           multiplyScalar2 u (r / length2 u)"
  using assms by (cases u) (simp add: normalize2_idem, simp add: normalize2_scale)

lemma trackBoundary_inside:
  assumes "distanceToCenter (position g) < TRACK_RADIUS"
  shows "trackBoundary g =
     g\<lparr>velocity := multiplyScalar3 (velocity g) (1 / 100),
       position := Vector3
         (x2 (normalize2 (position2D (position g))) * (TRACK_RADIUS + 1 / 10))
         (y3 (position g))
         (y2 (normalize2 (normalize2 (position2D (position g)))) * (TRACK_RADIUS + 1 / 10))\<rparr>"
  using assms
  by (simp add: trackBoundary_def innerWall_def outerWall_def Let_def TRACK_RADIUS_def
      TRACK_WIDTH_def)

lemma trackBoundary_outside:
  assumes "TRACK_RADIUS + TRACK_WIDTH < distanceToCenter (position g)"
  shows "trackBoundary g =
     g\<lparr>velocity := multiplyScalar3 (velocity g) (1 / 100),
       position := Vector3
         (x2 (normalize2 (position2D (position g))) * (TRACK_RADIUS + TRACK_WIDTH - 1 / 10))
         (y3 (position g))
         (y2 (normalize2 (normalize2 (position2D (position g)))) *
            (TRACK_RADIUS + TRACK_WIDTH - 1 / 10))\<rparr>"
  using assms
  by (simp add: trackBoundary_def innerWall_def outerWall_def Let_def TRACK_RADIUS_def
      TRACK_WIDTH_def)


lemma position2D_snapped:
  "position2D (Vector3 (x2 w) b (y2 w)) = w"
  by (cases w) (simp add: position2D_def)

lemma snapped_position:
  assumes "length2 (position2D p) \<noteq> 0"
  shows "position2D
           (Vector3 (x2 (normalize2 (position2D p)) * r) b
                    (y2 (normalize2 (normalize2 (position2D p))) * r)) =
         multiplyScalar2 (position2D p) (r / length2 (position2D p))"
proof -
  have "position2D
           (Vector3 (x2 (normalize2 (position2D p)) * r) b
                    (y2 (normalize2 (normalize2 (position2D p))) * r)) =
        Vector2 (x2 (normalize2 (position2D p)) * r)
                (y2 (normalize2 (normalize2 (position2D p))) * r)"
    by (simp add: position2D_def)
  then show ?thesis
    by (simp add: snap_components [OF assms])
qed

lemma position_updatePhysics_circuit:
  "position (updatePhysics Circuit k dt g) = position (trackBoundary (translated Circuit k dt g))"
  by (simp add: updatePhysics_circuit cameraFollow_def)

lemma velocity_updatePhysics_circuit:
  "velocity (updatePhysics Circuit k dt g) = velocity (trackBoundary (translated Circuit k dt g))"
  by (simp add: updatePhysics_circuit cameraFollow_def)

text \<open>
  Claim C3. In the circuit, let \<open>d\<close> be the distance of the translated body from the track
  centre. If \<open>0 < d < TRACK_RADIUS\<close>, the frame multiplies the velocity by 0.01 and rescales
  the horizontal position by \<open>(TRACK_RADIUS + 0.1) / d\<close>: same radial direction, radius
  exactly \<open>TRACK_RADIUS + 0.1\<close>. If \<open>d > TRACK_RADIUS + TRACK_WIDTH\<close>, the velocity is
  multiplied by 0.01 and the horizontal position is rescaled to the radius
  \<open>TRACK_RADIUS + TRACK_WIDTH - 0.1\<close>.
\<close>

theorem C3_circuit_walls_snap_radially:
  "(0 < distanceToCenter (position (translated Circuit k dt g)) \<and>
    distanceToCenter (position (translated Circuit k dt g)) < TRACK_RADIUS \<longrightarrow>
      velocity (updatePhysics Circuit k dt g) =
        multiplyScalar3 (velocity (translated Circuit k dt g)) (1 / 100) \<and>
      position2D (position (updatePhysics Circuit k dt g)) =
        multiplyScalar2 (position2D (position (translated Circuit k dt g)))
          ((TRACK_RADIUS + 1 / 10) / distanceToCenter (position (translated Circuit k dt g))) \<and>
      distanceToCenter (position (updatePhysics Circuit k dt g)) = TRACK_RADIUS + 1 / 10) \<and>
   (TRACK_RADIUS + TRACK_WIDTH < distanceToCenter (position (translated Circuit k dt g)) \<longrightarrow>
      velocity (updatePhysics Circuit k dt g) =
        multiplyScalar3 (velocity (translated Circuit k dt g)) (1 / 100) \<and>
      position2D (position (updatePhysics Circuit k dt g)) =
        multiplyScalar2 (position2D (position (translated Circuit k dt g)))
          ((TRACK_RADIUS + TRACK_WIDTH - 1 / 10) /
             distanceToCenter (position (translated Circuit k dt g))) \<and>
      distanceToCenter (position (updatePhysics Circuit k dt g)) =
        TRACK_RADIUS + TRACK_WIDTH - 1 / 10)"
proof -
  define t where "t = translated Circuit k dt g"
  define d where "d = distanceToCenter (position t)"
  have d: "d = length2 (position2D (position t))"
    by (simp add: d_def distanceToCenter_def)
  have radius: "distanceToCenter (position (updatePhysics Circuit k dt g)) = r"
    if "position2D (position (updatePhysics Circuit k dt g)) =
          multiplyScalar2 (position2D (position t)) (r / d)" and "0 < d" and "0 < r" for r
    using that by (simp add: distanceToCenter_def length2_multiplyScalar2 d [symmetric])
  have inner: "velocity (updatePhysics Circuit k dt g) = multiplyScalar3 (velocity t) (1 / 100) \<and>
      position2D (position (updatePhysics Circuit k dt g)) =
        multiplyScalar2 (position2D (position t)) ((TRACK_RADIUS + 1 / 10) / d) \<and>
      distanceToCenter (position (updatePhysics Circuit k dt g)) = TRACK_RADIUS + 1 / 10"
    if "0 < d" and "d < TRACK_RADIUS"
  proof -
    have nz: "length2 (position2D (position t)) \<noteq> 0"
      using that d by simp
    have tb: "distanceToCenter (position t) < TRACK_RADIUS"
      using that by (simp add: d_def)
    have p: "position2D (position (updatePhysics Circuit k dt g)) =
        multiplyScalar2 (position2D (position t)) ((TRACK_RADIUS + 1 / 10) / d)"
      unfolding position_updatePhysics_circuit t_def [symmetric] trackBoundary_inside [OF tb]
      by (simp add: snapped_position [OF nz] d)
    have v: "velocity (updatePhysics Circuit k dt g) = multiplyScalar3 (velocity t) (1 / 100)"
      unfolding velocity_updatePhysics_circuit t_def [symmetric] trackBoundary_inside [OF tb]
      by simp
    show ?thesis
      using p v radius [OF p] that by (simp add: TRACK_RADIUS_def)
  qed
  have outer: "velocity (updatePhysics Circuit k dt g) = multiplyScalar3 (velocity t) (1 / 100) \<and>
      position2D (position (updatePhysics Circuit k dt g)) =
        multiplyScalar2 (position2D (position t)) ((TRACK_RADIUS + TRACK_WIDTH - 1 / 10) / d) \<and>
      distanceToCenter (position (updatePhysics Circuit k dt g)) =
        TRACK_RADIUS + TRACK_WIDTH - 1 / 10"
    if "TRACK_RADIUS + TRACK_WIDTH < d"
  proof -
    have pos: "0 < d"
      using that by (simp add: TRACK_RADIUS_def TRACK_WIDTH_def)
    have nz: "length2 (position2D (position t)) \<noteq> 0"
      using pos d by simp
    have tb: "TRACK_RADIUS + TRACK_WIDTH < distanceToCenter (position t)"
      using that by (simp add: d_def)
    have p: "position2D (position (updatePhysics Circuit k dt g)) =
        multiplyScalar2 (position2D (position t)) ((TRACK_RADIUS + TRACK_WIDTH - 1 / 10) / d)"
      unfolding position_updatePhysics_circuit t_def [symmetric] trackBoundary_outside [OF tb]
      by (simp add: snapped_position [OF nz] d)
    have v: "velocity (updatePhysics Circuit k dt g) = multiplyScalar3 (velocity t) (1 / 100)"
      unfolding velocity_updatePhysics_circuit t_def [symmetric] trackBoundary_outside [OF tb]
      by simp
    show ?thesis
      using p v radius [OF p] pos by (simp add: TRACK_RADIUS_def TRACK_WIDTH_def)
  qed
  show ?thesis
    using inner outer unfolding d_def t_def by blast
qed

lemma distanceToCenter_x_axis: "distanceToCenter (Vector3 a b 0) = \<bar>a\<bar>"
  by (simp add: distanceToCenter_def position2D_def)

lemma translated_idle_circuit:
  "translated Circuit idle 1 (body p h (Vector3 a 0 0) 0) =
     (body p h (Vector3 a 0 0) 0)
       \<lparr>velocity := clampSpeed Circuit (Vector3 (a * (98 / 100)) 0 0),
        position := add3 p (multiplyScalar3 (clampSpeed Circuit (Vector3 (a * (98 / 100)) 0 0)) 1)\<rparr>"
  by (simp add: translated_def updatePosition_def updateVelocity_def acceleration_def
      steering_def steerKeys_def idle_def body_def dragged_def divideScalar3_def DRAG_def
      MASS_def Let_def)

lemma length3_axis_x: "length3 (Vector3 a 0 0) = \<bar>a\<bar>"
  by simp

theorem C3_witness:
  "distanceToCenter (position (translated Circuit idle 1
       (body (Vector3 56 (1 / 2) 0) 0 (Vector3 (- (50 / 49)) 0 0) 0))) = 55 \<and>
   velocity (updatePhysics Circuit idle 1
       (body (Vector3 56 (1 / 2) 0) 0 (Vector3 (- (50 / 49)) 0 0) 0)) = Vector3 (- (1 / 100)) 0 0 \<and>
   position2D (position (updatePhysics Circuit idle 1
       (body (Vector3 56 (1 / 2) 0) 0 (Vector3 (- (50 / 49)) 0 0) 0))) = Vector2 (601 / 10) 0 \<and>
   distanceToCenter (position (translated Circuit idle 1
       (body (Vector3 74 (1 / 2) 0) 0 (Vector3 (50 / 49) 0 0) 0))) = 75 \<and>
   velocity (updatePhysics Circuit idle 1
       (body (Vector3 74 (1 / 2) 0) 0 (Vector3 (50 / 49) 0 0) 0)) = Vector3 (1 / 100) 0 0 \<and>
   position2D (position (updatePhysics Circuit idle 1
       (body (Vector3 74 (1 / 2) 0) 0 (Vector3 (50 / 49) 0 0) 0))) = Vector2 (699 / 10) 0"
proof -
  let ?gi = "body (Vector3 56 (1 / 2) 0) 0 (Vector3 (- (50 / 49)) 0 0) 0"
  let ?go = "body (Vector3 74 (1 / 2) 0) 0 (Vector3 (50 / 49) 0 0) 0"
  have ci: "clampSpeed Circuit (Vector3 (- (50 / 49) * (98 / 100)) 0 0) = Vector3 (- 1) 0 0"
    unfolding clampSpeed_def length3_axis_x by (simp add: MAX_SPEED_def)
  have co: "clampSpeed Circuit (Vector3 (50 / 49 * (98 / 100)) 0 0) = Vector3 1 0 0"
    unfolding clampSpeed_def length3_axis_x by (simp add: MAX_SPEED_def)
  have ti: "position (translated Circuit idle 1 ?gi) = Vector3 55 (1 / 2) 0"
    and vi: "velocity (translated Circuit idle 1 ?gi) = Vector3 (- 1) 0 0"
    unfolding translated_idle_circuit ci by (simp_all add: body_def)
  have to: "position (translated Circuit idle 1 ?go) = Vector3 75 (1 / 2) 0"
    and vo: "velocity (translated Circuit idle 1 ?go) = Vector3 1 0 0"
    unfolding translated_idle_circuit co by (simp_all add: body_def)
  have di: "distanceToCenter (Vector3 55 (1 / 2) 0) = 55"
    and do: "distanceToCenter (Vector3 75 (1 / 2) 0) = 75"
    unfolding distanceToCenter_x_axis by simp_all
  show ?thesis
    using C3_circuit_walls_snap_radially [of idle 1 ?gi]
      C3_circuit_walls_snap_radially [of idle 1 ?go]
    unfolding ti vi to vo di do
    by (simp add: TRACK_RADIUS_def TRACK_WIDTH_def position2D_def)
qed

subsection \<open>Camera and boundary: order of the sections\<close>

lemma camera_updatePhysics:
  "camera_position (updatePhysics v k dt g) =
     add3 (position (updatePhysics v k dt g)) (cameraOffset (rotation_y (updatePhysics v k dt g)))"
proof (cases v)
  case OpenField
  then show ?thesis
    by (simp add: updatePhysics_open fieldBoundary_def cameraFollow_def)
next
  case Circuit
  then show ?thesis
    by (simp add: updatePhysics_circuit cameraFollow_def)
qed

lemma lookAt_updatePhysics:
  "camera_lookAt (updatePhysics v k dt g) = position (updatePhysics v k dt g)"
proof (cases v)
  case OpenField
  then show ?thesis
    by (simp add: updatePhysics_open fieldBoundary_def cameraFollow_def)
next
  case Circuit
  then show ?thesis
    by (simp add: updatePhysics_circuit cameraFollow_def)
qed

text \<open>
  In the open field the camera section is not after the boundary section: the list of
  sections ends with the boundary check.
\<close>

theorem C5_counterexample: "\<not> camera_after_boundary (sections OpenField)"
  by (simp add: camera_after_boundary_def sections_def)

text \<open>
  Claim C5, as the code has it. The camera section is a section of every frame in both
  variants, and after a frame the camera position is the final body position of that
  frame plus the rotated offset. In the circuit the camera section comes after the
  boundary section. In the open field it comes before the boundary check, which changes
  neither the position nor the heading.
\<close>

theorem C5_camera_sees_final_position:
  "CameraFollow \<in> set (sections v) \<and>
   camera_position (updatePhysics v k dt g) =
     add3 (position (updatePhysics v k dt g)) (cameraOffset (rotation_y (updatePhysics v k dt g))) \<and>
   camera_after_boundary (sections Circuit) \<and>
   sections OpenField =
     [Steering, Acceleration, UpdateVelocity, UpdatePosition, CameraFollow, BoundaryCheck] \<and>
   position (boundaryCheck OpenField g) = position g \<and>
   rotation_y (boundaryCheck OpenField g) = rotation_y g"
proof -
  have "CameraFollow \<in> set (sections v)"
    by (cases v) (simp_all add: sections_def)
  moreover have "camera_after_boundary (sections Circuit)"
    by (simp add: camera_after_boundary_def sections_def)
  moreover have "position (boundaryCheck OpenField g) = position g"
    and "rotation_y (boundaryCheck OpenField g) = rotation_y g"
    by (simp_all add: boundaryCheck_def fieldBoundary_def)
  ultimately show ?thesis
    by (simp add: camera_updatePhysics sections_def)
qed

subsection \<open>The camera offset\<close>

lemma cameraOffset_periodic: "cameraOffset (h + 2 * pi * of_int n) = cameraOffset h"
proof -
  have c: "cos (2 * pi * of_int n) = 1" and s: "sin (2 * pi * of_int n) = 0"
    by (simp_all add: cos_integer_2pi sin_integer_2pi)
  have "sin (h + 2 * pi * of_int n) = sin h"
    unfolding sin_add c s by simp
  moreover have "cos (h + 2 * pi * of_int n) = cos h"
    unfolding cos_add c s by simp
  ultimately show ?thesis
    by (simp add: cameraOffset_eq)
qed

text \<open>
  Claim C6. After every frame of either variant the camera position is the body position
  plus the offset \<open>(0, 5, 10)\<close> rotated about the vertical axis by the heading the body
  then has, and the camera is aimed at the body. The rotated offset is
  \<open>(10 sin h, 5, 10 cos h)\<close>; adding any whole number of turns to the heading leaves it
  unchanged, and at a whole number of turns it is \<open>(0, 5, 10)\<close> itself.
\<close>

theorem C6_camera_is_position_plus_rotated_offset:
  "camera_position (updatePhysics v k dt g) =
     add3 (position (updatePhysics v k dt g)) (cameraOffset (rotation_y (updatePhysics v k dt g))) \<and>
   camera_lookAt (updatePhysics v k dt g) = position (updatePhysics v k dt g) \<and>
   cameraOffset h = applyAxisAngle (Vector3 0 5 10) (Vector3 0 1 0) h \<and>
   cameraOffset h = Vector3 (10 * sin h) 5 (10 * cos h) \<and>
   cameraOffset (h + 2 * pi * of_int n) = cameraOffset h \<and>
   cameraOffset (2 * pi * of_int n) = Vector3 0 5 10"
proof -
  have "cameraOffset (2 * pi * of_int n) = cameraOffset 0"
    using cameraOffset_periodic [of 0 n] by simp
  then have "cameraOffset (2 * pi * of_int n) = Vector3 0 5 10"
    by (simp add: cameraOffset_eq)
  then show ?thesis
    using camera_updatePhysics lookAt_updatePhysics cameraOffset_periodic
    by (simp add: cameraOffset_eq cameraOffset_def [symmetric])
qed

subsection \<open>Steering\<close>

lemma angularVelocity_updatePhysics:
  "angularVelocity (updatePhysics v k dt g) = steerKeys k dt (angularVelocity g) * ANGULAR_DRAG"
proof (cases v)
  case OpenField
  then show ?thesis
    by (simp add: updatePhysics_open fieldBoundary_def cameraFollow_def translated_def
        updatePosition_def updateVelocity_def acceleration_def steering_def Let_def)
next
  case Circuit
  have "angularVelocity (trackBoundary t) = angularVelocity t" for t
    by (simp add: trackBoundary_def innerWall_def outerWall_def Let_def)
  then show ?thesis
    using Circuit
    by (simp add: updatePhysics_circuit cameraFollow_def translated_def
        updatePosition_def updateVelocity_def acceleration_def steering_def Let_def)
qed

lemma rotation_y_updatePhysics:
  "rotation_y (updatePhysics v k dt g) =
     rotation_y g + steerKeys k dt (angularVelocity g) * ANGULAR_DRAG"
proof (cases v)
  case OpenField
  then show ?thesis
    by (simp add: updatePhysics_open fieldBoundary_def cameraFollow_def translated_def
        updatePosition_def updateVelocity_def acceleration_def steering_def Let_def)
next
  case Circuit
  have "rotation_y (trackBoundary t) = rotation_y t" for t
    by (simp add: trackBoundary_def innerWall_def outerWall_def Let_def)
  then show ?thesis
    using Circuit
    by (simp add: updatePhysics_circuit cameraFollow_def translated_def
        updatePosition_def updateVelocity_def acceleration_def steering_def Let_def)
qed


text \<open>
  Claim C8. In both variants the heading after a frame is the heading before plus the
  angular velocity after the drag multiplication, as it stands: the frame time enters
  only through the key tests, not as a factor on the heading increment.
\<close>

theorem C8_heading_adds_angular_velocity_unscaled:
  "rotation_y (updatePhysics v k dt g) =
     rotation_y g + angularVelocity (updatePhysics v k dt g) \<and>
   angularVelocity (updatePhysics v k dt g) =
     steerKeys k dt (angularVelocity g) * ANGULAR_DRAG"
  by (simp add: angularVelocity_updatePhysics rotation_y_updatePhysics)

subsection \<open>Circuit: the body at the track centre\<close>

text \<open>
  Claim C9. In the circuit, when the translated body is exactly at the track centre, the
  inner wall test fires: the normalised radial vector is the zero vector, the snap writes
  the horizontal position \<open>(0, 0)\<close> (radius 0, not \<open>TRACK_RADIUS + 0.1\<close>), and the velocity
  is multiplied by 0.01.
\<close>

theorem C9_track_center_snaps_to_origin:
  "distanceToCenter (position (translated Circuit k dt g)) = 0 \<longrightarrow>
     normalize2 (position2D (position (translated Circuit k dt g))) = Vector2 0 0 \<and>
     velocity (updatePhysics Circuit k dt g) =
       multiplyScalar3 (velocity (translated Circuit k dt g)) (1 / 100) \<and>
     position2D (position (updatePhysics Circuit k dt g)) = Vector2 0 0 \<and>
     distanceToCenter (position (updatePhysics Circuit k dt g)) = 0 \<and>
     distanceToCenter (position (updatePhysics Circuit k dt g)) \<noteq> TRACK_RADIUS + 1 / 10"
proof
  define t where "t = translated Circuit k dt g"
  assume "distanceToCenter (position (translated Circuit k dt g)) = 0"
  then have d0: "distanceToCenter (position t) = 0"
    by (simp add: t_def)
  then have p0: "position2D (position t) = Vector2 0 0"
    by (simp add: distanceToCenter_def length2_zero_iff)
  have tb: "distanceToCenter (position t) < TRACK_RADIUS"
    by (simp add: d0 TRACK_RADIUS_def)
  have v: "velocity (updatePhysics Circuit k dt g) = multiplyScalar3 (velocity t) (1 / 100)"
    unfolding velocity_updatePhysics_circuit t_def [symmetric] trackBoundary_inside [OF tb]
    by simp
  have p: "position2D (position (updatePhysics Circuit k dt g)) = Vector2 0 0"
    unfolding position_updatePhysics_circuit t_def [symmetric] trackBoundary_inside [OF tb] p0
    by (simp add: normalize2_zero position2D_def)
  show "normalize2 (position2D (position (translated Circuit k dt g))) = Vector2 0 0 \<and>
     velocity (updatePhysics Circuit k dt g) =
       multiplyScalar3 (velocity (translated Circuit k dt g)) (1 / 100) \<and>
     position2D (position (updatePhysics Circuit k dt g)) = Vector2 0 0 \<and>
     distanceToCenter (position (updatePhysics Circuit k dt g)) = 0 \<and>
     distanceToCenter (position (updatePhysics Circuit k dt g)) \<noteq> TRACK_RADIUS + 1 / 10"
    using v p p0 unfolding t_def
    by (simp add: normalize2_zero distanceToCenter_def TRACK_RADIUS_def)
qed

lemma distanceToCenter_z_axis: "distanceToCenter (Vector3 0 b c) = \<bar>c\<bar>"
  by (simp add: distanceToCenter_def position2D_def)

lemma translated_idle_circuit_z:
  "translated Circuit idle 1 (body p h (Vector3 0 0 c) 0) =
     (body p h (Vector3 0 0 c) 0)
       \<lparr>velocity := clampSpeed Circuit (Vector3 0 0 (c * (98 / 100))),
        position := add3 p (multiplyScalar3 (clampSpeed Circuit (Vector3 0 0 (c * (98 / 100)))) 1)\<rparr>"
  by (simp add: translated_def updatePosition_def updateVelocity_def acceleration_def
      steering_def steerKeys_def idle_def body_def dragged_def divideScalar3_def DRAG_def
      MASS_def Let_def)

theorem C9_witness:
  "distanceToCenter (position (translated Circuit idle 1
       (body (Vector3 0 (1 / 2) 1) 0 (Vector3 0 0 (- (50 / 49))) 0))) = 0 \<and>
   velocity (updatePhysics Circuit idle 1
       (body (Vector3 0 (1 / 2) 1) 0 (Vector3 0 0 (- (50 / 49))) 0)) = Vector3 0 0 (- (1 / 100)) \<and>
   position2D (position (updatePhysics Circuit idle 1
       (body (Vector3 0 (1 / 2) 1) 0 (Vector3 0 0 (- (50 / 49))) 0))) = Vector2 0 0"
proof -
  let ?g = "body (Vector3 0 (1 / 2) 1) 0 (Vector3 0 0 (- (50 / 49))) 0"
  have c: "clampSpeed Circuit (Vector3 0 0 (- (50 / 49) * (98 / 100))) = Vector3 0 0 (- 1)"
    unfolding clampSpeed_def length3_axis_z by (simp add: MAX_SPEED_def)
  have t: "position (translated Circuit idle 1 ?g) = Vector3 0 (1 / 2) 0"
    and v: "velocity (translated Circuit idle 1 ?g) = Vector3 0 0 (- 1)"
    unfolding translated_idle_circuit_z c by (simp_all add: body_def)
  show ?thesis
    using C9_track_center_snaps_to_origin [of idle 1 ?g]
    unfolding t v distanceToCenter_z_axis by simp
qed

subsection \<open>Motion stays in the horizontal plane\<close>

lemma y3_add3: "y3 (add3 a b) = y3 a + y3 b"
  by (cases a; cases b) simp

lemma y3_multiplyScalar3: "y3 (multiplyScalar3 a s) = y3 a * s"
  by (cases a) simp

lemma y3_forwardVector: "y3 (forwardVector h) = 0"
  by (simp add: forwardVector_eq)

lemma y3_clampSpeed: "y3 u = 0 \<Longrightarrow> y3 (clampSpeed v u) = 0"
  by (simp add: clampSpeed_def setLength3_def normalize3_def divideScalar3_def
      y3_multiplyScalar3)

lemma y3_preClamp: "y3 (velocity g) = 0 \<Longrightarrow> y3 (preClamp v k dt g) = 0"
  by (simp add: preClamp_def dragged_def acceleration_def steering_def Let_def
      divideScalar3_def y3_add3 y3_multiplyScalar3 y3_forwardVector)

lemma y3_position_translated:
  "y3 (position (translated v k dt g)) =
     y3 (position g) + y3 (velocity (translated v k dt g)) * dt"
  by (simp add: translated_def updatePosition_def updateVelocity_def acceleration_def
      steering_def Let_def y3_add3 y3_multiplyScalar3)

lemma y3_position_updatePhysics:
  "y3 (position (updatePhysics v k dt g)) = y3 (position (translated v k dt g))"
proof (cases v)
  case OpenField
  then show ?thesis
    by (simp add: updatePhysics_open fieldBoundary_def cameraFollow_def)
next
  case Circuit
  have "y3 (position (trackBoundary t)) = y3 (position t)" for t
    by (simp add: trackBoundary_def innerWall_def outerWall_def Let_def)
  then show ?thesis
    using Circuit by (simp add: updatePhysics_circuit cameraFollow_def)
qed

text \<open>
  Claim C10. The forward vector has no vertical component. In both variants, a frame that
  starts with a velocity without vertical component ends with one, and leaves the height
  of the body unchanged.
\<close>

theorem C10_motion_stays_horizontal:
  "y3 (forwardVector h) = 0 \<and>
   (y3 (velocity g) = 0 \<longrightarrow>
      y3 (velocity (updatePhysics v k dt g)) = 0 \<and>
      y3 (position (updatePhysics v k dt g)) = y3 (position g))"
proof (intro conjI impI)
  show "y3 (forwardVector h) = 0"
    by (rule y3_forwardVector)
next
  assume flat: "y3 (velocity g) = 0"
  have t: "y3 (velocity (translated v k dt g)) = 0"
    by (simp add: velocity_translated y3_clampSpeed y3_preClamp flat)
  show "y3 (velocity (updatePhysics v k dt g)) = 0"
    using velocity_updatePhysics_cases [of v k dt g] t
    by (auto simp add: y3_multiplyScalar3)
  show "y3 (position (updatePhysics v k dt g)) = y3 (position g)"
    by (simp add: y3_position_updatePhysics y3_position_translated t)
qed

theorem C10_witness:
  "y3 (velocity (body (Vector3 56 (1 / 2) 0) 0 (Vector3 3 0 4) 0)) = 0 \<and>
   y3 (velocity (updatePhysics Circuit throttle 1
         (body (Vector3 56 (1 / 2) 0) 0 (Vector3 3 0 4) 0))) = 0 \<and>
   y3 (position (updatePhysics Circuit throttle 1
         (body (Vector3 56 (1 / 2) 0) 0 (Vector3 3 0 4) 0))) = 1 / 2"
  using C10_motion_stays_horizontal [of 0 "body (Vector3 56 (1 / 2) 0) 0 (Vector3 3 0 4) 0"
      Circuit throttle 1]
  by (simp add: body_def)

subsection \<open>Full throttle from rest\<close>

















lemma rotation_y_translated: "rotation_y (translated v k dt g) = rotation_y (steering k dt g)"
  and angularVelocity_translated:
    "angularVelocity (translated v k dt g) = angularVelocity (steering k dt g)"
  and position_translated:
    "position (translated v k dt g) =
       add3 (position g) (multiplyScalar3 (velocity (translated v k dt g)) dt)"
  by (simp_all add: translated_def updatePosition_def updateVelocity_def acceleration_def
      steering_def Let_def)
















end
